theory Spec2Isabelle
  imports Main "HOL-Library.AList"
begin

section \<open>Data model\<close>

text \<open>
  Document ids (\<open>_id\<close>) are the hexadecimal strings of their ObjectIds; instants are
  milliseconds since the epoch, as \<open>Date.getTime()\<close> gives them.
\<close>

type_synonym msg_id = string
type_synonym group_id = string
type_synonym time = int

text \<open>\<open>models/Message.js\<close>: the two enumerations of the schema.\<close>

datatype channel = Email | InApp | Sms

datatype status = Draft | Scheduled | Sent | Failed

text \<open>
  \<open>models/Message.js\<close>. \<open>deliveryReport\<close> holds the \<open>recipientsCount\<close> of the report
  object, \<open>None\<close> for the schema's default \<open>{}\<close>. An absent \<open>recipients\<close> array is the
  empty list: line 12 of the service reads it as \<open>msg.recipients || []\<close>.
\<close>

record message =
  title :: string
  body :: string
  targetGroup :: "group_id option"
  recipients :: "string list"
  channel :: channel
  status :: status
  scheduledAt :: "time option"
  sentAt :: "time option"
  deliveryReport :: "nat option"
  createdBy :: string

text \<open>\<open>models/UserGroup.js\<close>: a manual member.\<close>

record groupMember =
  member_username :: string
  joinedAt :: time

text \<open>The values a filter may require of a directory attribute.\<close>

datatype fvalue = VStr string | VBool bool

text \<open>
  \<open>models/UserGroup.js\<close>. The \<open>filters\<close> object is the list of its entries in
  \<open>Object.entries\<close> order; a null or absent object is the empty list (line 19 of the
  service guards both with \<open>group.filters && Object.keys(group.filters).length\<close>).
\<close>

record userGroup =
  name :: string
  group_isActive :: bool
  filters :: "(string \<times> fvalue) list"
  members :: "groupMember list"

text \<open>
  Modelled from the spec: the \<open>AdminUser\<close> model is not among the sources. The spec's
  directory entry is a user record with at least \<open>username\<close>, \<open>email\<close>, \<open>role\<close> and
  \<open>isActive\<close>; \<open>email\<close> may be absent.
\<close>

record adminUser =
  username :: string
  email :: "string option"
  role :: string
  isActive :: bool

text \<open>\<open>models/ActivityLog.js\<close>: the fields the service writes.\<close>

record activityLog =
  user :: string
  action :: string
  details :: string
  ip :: string

text \<open>The argument object of \<open>delivery.sendEmail\<close>.\<close>

record mail =
  to :: "string list"
  subject :: string
  html :: string

text \<open>
  Every awaited call on a collaborator may reject. \<open>call\<close> names the call with its
  arguments; the \<open>faults\<close> of the world give the message of the error it rejects with,
  if it does.
\<close>

datatype call =
    MessageFindById msg_id
  | UserGroupFindById group_id
  | AdminUserFind "(string \<times> fvalue) list"
  | AdminUserFindIn "string list"
  | SendEmail mail
  | MessageSave msg_id
  | ActivityLogCreate activityLog
  | MessageFindDue time

datatype error = Error string

text \<open>
  The collections the service reads and writes, the transport calls made so far, the
  clock \<open>new Date()\<close> reads and the faults of the collaborators.
\<close>

record world =
  messages :: "(msg_id \<times> message) list"
  groups :: "(group_id \<times> userGroup) list"
  users :: "adminUser list"
  activitylogs :: "activityLog list"
  transport_calls :: "mail list"
  clock :: time
  faults :: "call \<Rightarrow> string option"

section \<open>The message service\<close>

text \<open>
  \<open>Array.from(new Set(recipients))\<close>: a Set keeps the first occurrence of each element,
  in insertion order.
\<close>

definition dedup :: "'a list \<Rightarrow> 'a list" where
  "dedup xs = fold (\<lambda>x acc. if x \<in> set acc then acc else acc @ [x]) xs []"

text \<open>Lines 22-28: the query keeps the entries of the filter whose key is allowed.\<close>

definition allowed :: "string list" where
  "allowed = [''role'', ''isActive'', ''username'']"

definition build_query :: "(string \<times> fvalue) list \<Rightarrow> (string \<times> fvalue) list" where
  "build_query fs =
     fold (\<lambda>(k, v) query. if k \<in> set allowed then AList.update k v query else query) fs []"

text \<open>
  Modelled from the spec: the directory query of the missing \<open>AdminUser\<close> model. The
  spec's \<open>findUsers\<close> returns the users matching all fields of the filter (conjunction).
\<close>

definition user_field :: "adminUser \<Rightarrow> string \<Rightarrow> fvalue option" where
  "user_field u k =
     (if k = ''role'' then Some (VStr (role u))
      else if k = ''isActive'' then Some (VBool (isActive u))
      else if k = ''username'' then Some (VStr (username u))
      else None)"

definition matches :: "adminUser \<Rightarrow> (string \<times> fvalue) list \<Rightarrow> bool" where
  "matches u query = list_all (\<lambda>(k, v). user_field u k = Some v) query"

definition AdminUser_find :: "world \<Rightarrow> (string \<times> fvalue) list \<Rightarrow> adminUser list" where
  "AdminUser_find w query = filter (\<lambda>u. matches u query) (users w)"

text \<open>\<open>AdminUser.find({ username: { $in: recipients } })\<close>.\<close>

definition AdminUser_find_in :: "world \<Rightarrow> string list \<Rightarrow> adminUser list" where
  "AdminUser_find_in w names = filter (\<lambda>u. username u \<in> set names) (users w)"

text \<open>
  \<open>Message.findById(id).populate('targetGroup')\<close>: the reference is replaced by the
  group's document, or by null when no group has that id.
\<close>

definition populate :: "world \<Rightarrow> message \<Rightarrow> (group_id \<times> userGroup) option" where
  "populate w msg =
     (case targetGroup msg of
        None \<Rightarrow> None
      | Some gid \<Rightarrow> map_option (\<lambda>g. (gid, g)) (map_of (groups w) gid))"

text \<open>Lines 12-36 of \<open>sendMessageById\<close>: the recipients of a loaded message.\<close>

definition resolveAudience :: "world \<Rightarrow> message \<Rightarrow> error + string list" where
  "resolveAudience w msg =
     (case populate w msg of
        None \<Rightarrow> Inr (dedup (recipients msg))
      | Some (gid, _) \<Rightarrow>
          (case faults w (UserGroupFindById gid) of
             Some e \<Rightarrow> Inl (Error e)
           | None \<Rightarrow>
               (case map_of (groups w) gid of
                  None \<Rightarrow> Inr (dedup (recipients msg))
                | Some grp \<Rightarrow>
                    (let rs = recipients msg @ map member_username (members grp) in
                     if filters grp \<noteq> [] then
                       (let query = build_query (filters grp) in
                        if query \<noteq> [] then
                          (case faults w (AdminUserFind query) of
                             Some e \<Rightarrow> Inl (Error e)
                           | None \<Rightarrow>
                               Inr (dedup (rs @ map username (AdminUser_find w query))))
                        else Inr (dedup rs))
                     else Inr (dedup rs)))))"

text \<open>\<open>ActivityLog.create\<close>: appends the entry, or rejects.\<close>

definition ActivityLog_create :: "world \<Rightarrow> activityLog \<Rightarrow> (error + unit) \<times> world" where
  "ActivityLog_create w entry =
     (case faults w (ActivityLogCreate entry) of
        Some e \<Rightarrow> (Inl (Error e), w)
      | None \<Rightarrow> (Inr (), w\<lparr>activitylogs := activitylogs w @ [entry]\<rparr>))"

text \<open>\<open>delivery.sendEmail\<close>: one transport call, which may reject.\<close>

definition sendEmail :: "world \<Rightarrow> mail \<Rightarrow> (error + unit) \<times> world" where
  "sendEmail w m =
     (let w1 = w\<lparr>transport_calls := transport_calls w @ [m]\<rparr> in
      case faults w (SendEmail m) of
        Some e \<Rightarrow> (Inl (Error e), w1)
      | None \<Rightarrow> (Inr (), w1))"

text \<open>\<open>.filter(Boolean)\<close> on the emails: absent and empty addresses are dropped.\<close>

fun filter_Boolean :: "string option list \<Rightarrow> string list" where
  "filter_Boolean [] = []"
| "filter_Boolean (None # es) = filter_Boolean es"
| "filter_Boolean (Some e # es) = (if e = [] then filter_Boolean es else e # filter_Boolean es)"

definition resolve_emails :: "world \<Rightarrow> string list \<Rightarrow> string list" where
  "resolve_emails w rs = filter_Boolean (map email (AdminUser_find_in w rs))"

definition email_of :: "message \<Rightarrow> string list \<Rightarrow> mail" where
  "email_of msg emails = \<lparr>to = emails, subject = title msg, html = ''<p>'' @ body msg @ ''</p>''\<rparr>"

text \<open>Lines 41-47: the body of the \<open>try\<close> block.\<close>

definition try_email :: "world \<Rightarrow> message \<Rightarrow> string list \<Rightarrow> (error + unit) \<times> world" where
  "try_email w msg rs =
     (case faults w (AdminUserFindIn rs) of
        Some e \<Rightarrow> (Inl (Error e), w)
      | None \<Rightarrow>
          (let emails = resolve_emails w rs in
           if emails \<noteq> [] then sendEmail w (email_of msg emails) else (Inr (), w)))"

definition send_error_log :: "msg_id \<Rightarrow> string \<Rightarrow> string \<Rightarrow> string \<Rightarrow> activityLog" where
  "send_error_log mid err actor addr =
     \<lparr>user = actor, action = ''Send Message Error'',
      details = ''Email send failed for '' @ mid @ '': '' @ err, ip = addr\<rparr>"

text \<open>Lines 39-52: the channel-specific handler, with its \<open>catch\<close>.\<close>

definition dispatch ::
  "world \<Rightarrow> msg_id \<Rightarrow> message \<Rightarrow> string list \<Rightarrow> string \<Rightarrow> string \<Rightarrow> (error + unit) \<times> world" where
  "dispatch w mid msg rs actor addr =
     (if channel msg = Email then
        (case try_email w msg rs of
           (Inr u, w1) \<Rightarrow> (Inr u, w1)
         | (Inl (Error err), w1) \<Rightarrow> ActivityLog_create w1 (send_error_log mid err actor addr))
      else (Inr (), w))"

text \<open>The decimal digits of a number, as a template literal prints it.\<close>

fun digits :: "nat \<Rightarrow> nat \<Rightarrow> string" where
  "digits 0 n = []"
| "digits (Suc fuel) n =
     (if n < 10 then [char_of (48 + n)]
      else digits fuel (n div 10) @ [char_of (48 + n mod 10)])"

definition show_nat :: "nat \<Rightarrow> string" where
  "show_nat n = digits (Suc n) n"

definition send_log :: "message \<Rightarrow> nat \<Rightarrow> string \<Rightarrow> string \<Rightarrow> activityLog" where
  "send_log msg n actor addr =
     \<lparr>user = actor, action = ''Send Message'',
      details = ''Sent message '' @ title msg @ '' to '' @ show_nat n @ '' recipients'',
      ip = addr\<rparr>"

record send_result =
  recipientsCount :: nat
  messageId :: msg_id

text \<open>Lines 54-56: the fields the send writes.\<close>

definition mark_sent :: "world \<Rightarrow> message \<Rightarrow> nat \<Rightarrow> message" where
  "mark_sent w msg n = msg\<lparr>status := Sent, sentAt := Some (clock w), deliveryReport := Some n\<rparr>"

text \<open>
  \<open>sendMessageById\<close>. The result is \<open>Inl\<close> when the promise rejects, \<open>Inr None\<close> for the
  \<open>null\<close> of an unknown id, and the world is the one left behind in each case.
\<close>

definition sendMessageById ::
  "world \<Rightarrow> msg_id \<Rightarrow> string \<Rightarrow> string \<Rightarrow> (error + send_result option) \<times> world" where
  "sendMessageById w mid actor addr =
     (case faults w (MessageFindById mid) of
        Some e \<Rightarrow> (Inl (Error e), w)
      | None \<Rightarrow>
     (case map_of (messages w) mid of
        None \<Rightarrow> (Inr None, w)
      | Some msg \<Rightarrow>
     (case resolveAudience w msg of
        Inl e \<Rightarrow> (Inl e, w)
      | Inr rs \<Rightarrow>
     (case dispatch w mid msg rs actor addr of
        (Inl e, w1) \<Rightarrow> (Inl e, w1)
      | (Inr _, w1) \<Rightarrow>
     (case faults w1 (MessageSave mid) of
        Some e \<Rightarrow> (Inl (Error e), w1)
      | None \<Rightarrow>
     (let w2 = w1\<lparr>messages := AList.update mid (mark_sent w1 msg (length rs)) (messages w1)\<rparr> in
      case ActivityLog_create w2 (send_log msg (length rs) actor addr) of
        (Inl e, w3) \<Rightarrow> (Inl e, w3)
      | (Inr _, w3) \<Rightarrow>
          (Inr (Some \<lparr>recipientsCount = length rs, messageId = mid\<rparr>), w3)))))))"

text \<open>
  Lines 68-76: one tick of the scheduler. A message's failure is caught and ignored, and
  so is a failure of the query itself.
\<close>

definition is_due :: "time \<Rightarrow> message \<Rightarrow> bool" where
  "is_due now msg =
     (status msg = Scheduled \<and> (case scheduledAt msg of None \<Rightarrow> False | Some t \<Rightarrow> t \<le> now))"

definition due_ids :: "world \<Rightarrow> msg_id list" where
  "due_ids w = map fst (filter (\<lambda>(i, msg). is_due (clock w) msg) (messages w))"

definition send_scheduled :: "msg_id \<Rightarrow> world \<Rightarrow> world" where
  "send_scheduled mid w = snd (sendMessageById w mid ''system'' ''scheduler'')"

definition scheduler_tick :: "world \<Rightarrow> world" where
  "scheduler_tick w =
     (case faults w (MessageFindDue (clock w)) of
        Some e \<Rightarrow> w
      | None \<Rightarrow> fold send_scheduled (due_ids w) w)"

section \<open>The create route\<close>

text \<open>
  The primitive values a JSON body gives a field; \<open>JUndefined\<close> is an absent field.
  Numbers are whole milliseconds.
\<close>

datatype jsval = JUndefined | JNull | JBool bool | JNum int | JStr string

fun truthy :: "jsval \<Rightarrow> bool" where
  "truthy JUndefined = False"
| "truthy JNull = False"
| "truthy (JBool b) = b"
| "truthy (JNum n) = (n \<noteq> 0)"
| "truthy (JStr s) = (s \<noteq> [])"

text \<open>
  \<open>new Date(v).getTime()\<close>, \<open>None\<close> for NaN. A number is a time value when it is within
  8.64e15 ms of the epoch, a boolean or null is converted to a number, and a string goes
  through \<open>Date.parse\<close>, which the engine defines: it is the parameter \<open>parse\<close>.
\<close>

fun Date_getTime :: "(string \<Rightarrow> time option) \<Rightarrow> jsval \<Rightarrow> time option" where
  "Date_getTime parse JUndefined = None"
| "Date_getTime parse JNull = Some 0"
| "Date_getTime parse (JBool b) = Some (if b then 1 else 0)"
| "Date_getTime parse (JNum n) = (if \<bar>n\<bar> \<le> 8640000000000000 then Some n else None)"
| "Date_getTime parse (JStr s) = parse s"

text \<open>Lines 339-344 of \<open>routes/admin_v2.js\<close>; the schema's default status is \<open>draft\<close>.\<close>

definition initial_status :: "(string \<Rightarrow> time option) \<Rightarrow> time \<Rightarrow> jsval \<Rightarrow> status" where
  "initial_status parse now v =
     (if truthy v then
        (case Date_getTime parse v of
           None \<Rightarrow> Draft
         | Some t \<Rightarrow> if now < t then Scheduled else Draft)
      else Draft)"

text \<open>
  The cast Mongoose applies to a \<open>Date\<close> path when the document is built (\<open>castDate\<close> of the
  library, which is not among the sources), on the primitive values of a JSON body. The
  result is \<open>None\<close> where the cast fails, and the save is rejected, and \<open>Some None\<close> where no
  date is stored. An absent field, null and the empty string store no date; a boolean is
  refused; a number is a time value, 0 included; a string the library reads as a count of
  milliseconds, such as a string of digits, is that time value; any other string goes through
  \<open>new Date\<close>. Which strings count as milliseconds is the parameter \<open>millis\<close>.
\<close>

definition mongoose_castDate ::
  "(string \<Rightarrow> time option) \<Rightarrow> (string \<Rightarrow> int option) \<Rightarrow> jsval \<Rightarrow> time option option" where
  "mongoose_castDate parse millis v =
     (case v of
        JUndefined \<Rightarrow> Some None
      | JNull \<Rightarrow> Some None
      | JBool b \<Rightarrow> None
      | JNum n \<Rightarrow> map_option Some (Date_getTime parse (JNum n))
      | JStr s \<Rightarrow>
          if s = [] then Some None
          else (case millis s of
                  Some n \<Rightarrow> map_option Some (Date_getTime parse (JNum n))
                | None \<Rightarrow> map_option Some (parse s)))"

text \<open>The schema's enumeration of \<open>channel\<close>, checked when the document is saved.\<close>

definition channel_of :: "string \<Rightarrow> channel option" where
  "channel_of s =
     (if s = ''email'' then Some Email
      else if s = ''in-app'' then Some InApp
      else if s = ''sms'' then Some Sms
      else None)"

record create_request =
  req_title :: "string option"
  req_body :: "string option"
  req_channel :: "string option"
  req_targetGroupId :: "group_id option"
  req_recipients :: "string list option"
  req_scheduledAt :: jsval
  req_username :: "string option"
  req_ip :: string

datatype response = Response nat string | Created message

text \<open>\<open>x || d\<close> on an optional string.\<close>

definition or_else :: "string option \<Rightarrow> string \<Rightarrow> string" where
  "or_else x d = (case x of None \<Rightarrow> d | Some s \<Rightarrow> if s = [] then d else s)"

text \<open>\<open>logActivity\<close> of the routes: a failure of the audit sink is caught there.\<close>

definition logActivity :: "world \<Rightarrow> activityLog \<Rightarrow> world" where
  "logActivity w entry =
     (case ActivityLog_create w entry of
        (Inl _, w1) \<Rightarrow> w1
      | (Inr _, w1) \<Rightarrow> w1)"

text \<open>
  \<open>POST /messages\<close>. \<open>castDate\<close> is Mongoose's cast of the \<open>scheduledAt\<close> path (\<open>None\<close>
  where it fails and the save is rejected) and \<open>new_id\<close> the id of the new document;
  neither is among the sources.
\<close>

definition post_messages ::
  "(string \<Rightarrow> time option) \<Rightarrow> (jsval \<Rightarrow> time option option) \<Rightarrow> msg_id \<Rightarrow>
   world \<Rightarrow> create_request \<Rightarrow> response \<times> world" where
  "post_messages parse castDate new_id w req =
     (if or_else (req_title req) [] = [] \<or> or_else (req_body req) [] = [] then
        (Response 400 ''Title and body required'', w)
      else
        (case (channel_of (or_else (req_channel req) ''in-app''), castDate (req_scheduledAt req)) of
           (Some ch, Some at) \<Rightarrow>
             (let msg = \<lparr>title = or_else (req_title req) [], body = or_else (req_body req) [],
                         targetGroup = req_targetGroupId req,
                         recipients = (case req_recipients req of None \<Rightarrow> [] | Some rs \<Rightarrow> rs),
                         channel = ch,
                         status = initial_status parse (clock w) (req_scheduledAt req),
                         scheduledAt = at, sentAt = None, deliveryReport = None,
                         createdBy = or_else (req_username req) ''admin''\<rparr> in
              case faults w (MessageSave new_id) of
                Some e \<Rightarrow> (Response 500 ''Failed to create message'', w)
              | None \<Rightarrow>
                  (Created msg,
                   logActivity (w\<lparr>messages := messages w @ [(new_id, msg)]\<rparr>)
                     \<lparr>user = or_else (req_username req) ''admin'', action = ''Create Message'',
                      details = ''Created message '' @ or_else (req_title req) [],
                      ip = req_ip req\<rparr>))
         | _ \<Rightarrow> (Response 500 ''Failed to create message'', w)))"

section \<open>Statements of the specification\<close>

text \<open>
  The audience the specification states for a message targeting a group (section 4.1): the
  explicit recipients, the manual members, and, when the filter projected onto the allow-list
  is non-empty, the directory users matching every entry of the projected filter. With an
  empty projection the directory is not queried and no directory user is added.
\<close>

definition spec_projected :: "(string \<times> fvalue) list \<Rightarrow> (string \<times> fvalue) list" where
  "spec_projected fs = filter (\<lambda>(k, v). k = ''role'' \<or> k = ''isActive'' \<or> k = ''username'') fs"

definition spec_directory_matches :: "world \<Rightarrow> (string \<times> fvalue) list \<Rightarrow> string set" where
  "spec_directory_matches w fs =
     (if spec_projected fs = [] then {}
      else username `
             {u \<in> set (users w). \<forall>(k, v) \<in> set (spec_projected fs). user_field u k = Some v})"

definition spec_audience :: "world \<Rightarrow> message \<Rightarrow> userGroup \<Rightarrow> string set" where
  "spec_audience w msg grp =
     set (recipients msg) \<union> member_username ` set (members grp)
       \<union> spec_directory_matches w (filters grp)"

text \<open>The email addresses of the directory users with one of the given usernames.\<close>

definition spec_addresses :: "world \<Rightarrow> string list \<Rightarrow> string set" where
  "spec_addresses w rs =
     {e. \<exists>u \<in> set (users w). username u \<in> set rs \<and> email u = Some e \<and> e \<noteq> []}"

text \<open>A scheduled instant is provided when the field is present and not null.\<close>

definition provided :: "jsval \<Rightarrow> bool" where
  "provided v = (v \<noteq> JUndefined \<and> v \<noteq> JNull)"

text \<open>The send of a loaded message gets as far as saving it.\<close>

definition reaches_save :: "world \<Rightarrow> msg_id \<Rightarrow> message \<Rightarrow> string \<Rightarrow> string \<Rightarrow> bool" where
  "reaches_save w mid msg actor addr =
     (faults w (MessageFindById mid) = None \<and> faults w (MessageSave mid) = None \<and>
      (case resolveAudience w msg of
         Inl e \<Rightarrow> False
       | Inr rs \<Rightarrow> (case fst (dispatch w mid msg rs actor addr) of Inl e \<Rightarrow> False | Inr u \<Rightarrow> True)))"

section \<open>Example worlds\<close>

definition ex_users :: "adminUser list" where
  "ex_users =
     [\<lparr>username = ''alice'', email = Some ''alice@example.com'', role = ''user'', isActive = True\<rparr>,
      \<lparr>username = ''bob'', email = None, role = ''moderator'', isActive = True\<rparr>,
      \<lparr>username = ''carol'', email = Some ''carol@example.com'', role = ''admin'', isActive = True\<rparr>]"

definition ex_group :: userGroup where
  "ex_group =
     \<lparr>name = ''Moderators'', group_isActive = True, filters = [(''role'', VStr ''moderator'')],
      members = [\<lparr>member_username = ''alice'', joinedAt = 0\<rparr>]\<rparr>"

definition ex_msg :: message where
  "ex_msg =
     \<lparr>title = ''Hi'', body = ''Hello'', targetGroup = None,
      recipients = [''bob'', ''alice'', ''bob''], channel = Email, status = Draft,
      scheduledAt = None, sentAt = None, deliveryReport = None, createdBy = ''admin''\<rparr>"

definition ex_world :: world where
  "ex_world =
     \<lparr>messages = [(''m1'', ex_msg)], groups = [(''g1'', ex_group)], users = ex_users,
      activitylogs = [], transport_calls = [], clock = 1000, faults = (\<lambda>c. None)\<rparr>"

definition ex_relay_down :: world where
  "ex_relay_down =
     ex_world\<lparr>faults := (\<lambda>c. case c of SendEmail m \<Rightarrow> Some ''relay unreachable'' | _ \<Rightarrow> None)\<rparr>"

definition ex_no_address :: world where
  "ex_no_address = ex_world\<lparr>messages := [(''m1'', ex_msg\<lparr>recipients := [''bob'']\<rparr>)]\<rparr>"

definition ex_sent_msg :: message where
  "ex_sent_msg = ex_msg\<lparr>status := Sent, sentAt := Some 500, deliveryReport := Some 1\<rparr>"

definition ex_already_sent :: world where
  "ex_already_sent = ex_world\<lparr>messages := [(''m1'', ex_sent_msg)]\<rparr>"

definition ex_audit_down :: world where
  "ex_audit_down =
     ex_world\<lparr>messages := [(''m1'', ex_msg\<lparr>channel := InApp\<rparr>)],
              faults := (\<lambda>c. case c of ActivityLogCreate entry \<Rightarrow> Some ''audit sink down'' | _ \<Rightarrow> None)\<rparr>"

definition ex_dept_group :: userGroup where
  "ex_dept_group = ex_group\<lparr>filters := [(''department'', VStr ''sales'')]\<rparr>"

definition ex_group_msg :: message where
  "ex_group_msg = ex_msg\<lparr>targetGroup := Some ''g1'', recipients := [''dave'']\<rparr>"

definition ex_dept_world :: world where
  "ex_dept_world =
     ex_world\<lparr>messages := [(''m1'', ex_group_msg)], groups := [(''g1'', ex_dept_group)]\<rparr>"

definition ex_group_world :: world where
  "ex_group_world = ex_world\<lparr>messages := [(''m1'', ex_group_msg)]\<rparr>"

definition ex_parse :: "string \<Rightarrow> time option" where
  "ex_parse s = (if s = ''2030-01-01T00:00:00.000Z'' then Some 1893456000000 else None)"

definition ex_millis :: "string \<Rightarrow> int option" where
  "ex_millis s = (if s = ''1893456000000'' then Some 1893456000000 else None)"

definition ex_request :: create_request where
  "ex_request =
     \<lparr>req_title = Some ''Hi'', req_body = Some ''Hello'', req_channel = Some ''email'',
      req_targetGroupId = None, req_recipients = Some [''alice''],
      req_scheduledAt = JStr ''2030-01-01T00:00:00.000Z'', req_username = Some ''admin'',
      req_ip = ''10.0.0.1''\<rparr>"

definition ex_created :: message where
  "ex_created =
     \<lparr>title = ''Hi'', body = ''Hello'', targetGroup = None, recipients = [''alice''],
      channel = Email, status = Scheduled, scheduledAt = Some 1893456000000, sentAt = None,
      deliveryReport = None, createdBy = ''admin''\<rparr>"

definition ex_digit_request :: create_request where
  "ex_digit_request = ex_request\<lparr>req_scheduledAt := JStr ''1893456000000''\<rparr>"

definition ex_digit_created :: message where
  "ex_digit_created = ex_created\<lparr>status := Draft\<rparr>"

definition ex_scheduled_msg :: "time \<Rightarrow> message" where
  "ex_scheduled_msg t = ex_msg\<lparr>channel := InApp, status := Scheduled, scheduledAt := Some t\<rparr>"

definition ex_schedule :: world where
  "ex_schedule =
     ex_world\<lparr>messages := [(''m1'', ex_scheduled_msg 900), (''m2'', ex_scheduled_msg 1000),
                             (''m3'', ex_scheduled_msg 2000)],
              faults := (\<lambda>c. case c of
                                MessageSave m \<Rightarrow> if m = ''m1'' then Some ''write failed'' else None
                              | _ \<Rightarrow> None)\<rparr>"

section \<open>Lists without duplicates\<close>

lemma set_fold_dedup:
  "set (fold (\<lambda>x acc. if x \<in> set acc then acc else acc @ [x]) xs acc) = set acc \<union> set xs"
  by (induction xs arbitrary: acc) auto

lemma distinct_fold_dedup:
  "distinct acc \<Longrightarrow> distinct (fold (\<lambda>x acc. if x \<in> set acc then acc else acc @ [x]) xs acc)"
  by (induction xs arbitrary: acc) auto

lemma set_dedup: "set (dedup xs) = set xs"
  by (simp add: dedup_def set_fold_dedup)

lemma distinct_dedup: "distinct (dedup xs)"
  by (simp add: dedup_def distinct_fold_dedup)

lemma length_dedup: "length (dedup xs) = card (set xs)"
  using distinct_card [OF distinct_dedup, of xs] by (simp add: set_dedup)

section \<open>The steps of a send\<close>

lemma resolve_no_group:
  "populate w msg = None \<Longrightarrow> resolveAudience w msg = Inr (dedup (recipients msg))"
  by (simp add: resolveAudience_def)

lemma dispatch_other_channel:
  "channel msg \<noteq> Email \<Longrightarrow> dispatch w mid msg rs actor addr = (Inr (), w)"
  by (simp add: dispatch_def)

lemma dispatch_no_address:
  "channel msg = Email \<Longrightarrow> faults w (AdminUserFindIn rs) = None \<Longrightarrow> resolve_emails w rs = []
   \<Longrightarrow> dispatch w mid msg rs actor addr = (Inr (), w)"
  by (simp add: dispatch_def try_email_def)

lemma dispatch_delivered:
  "channel msg = Email \<Longrightarrow> faults w (AdminUserFindIn rs) = None \<Longrightarrow> resolve_emails w rs \<noteq> []
   \<Longrightarrow> faults w (SendEmail (email_of msg (resolve_emails w rs))) = None
   \<Longrightarrow> dispatch w mid msg rs actor addr =
        (Inr (), w\<lparr>transport_calls := transport_calls w @ [email_of msg (resolve_emails w rs)]\<rparr>)"
  by (simp add: dispatch_def try_email_def sendEmail_def)

lemma dispatch_transport_error:
  "channel msg = Email \<Longrightarrow> faults w (AdminUserFindIn rs) = None \<Longrightarrow> resolve_emails w rs \<noteq> []
   \<Longrightarrow> faults w (SendEmail (email_of msg (resolve_emails w rs))) = Some err
   \<Longrightarrow> faults w (ActivityLogCreate (send_error_log mid err actor addr)) = None
   \<Longrightarrow> dispatch w mid msg rs actor addr =
        (Inr (), w\<lparr>transport_calls := transport_calls w @ [email_of msg (resolve_emails w rs)],
                    activitylogs := activitylogs w @ [send_error_log mid err actor addr]\<rparr>)"
  by (simp add: dispatch_def try_email_def sendEmail_def ActivityLog_create_def)

lemma ActivityLog_create_frame:
  "ActivityLog_create w e = (r, w1) \<Longrightarrow> w1 = w\<lparr>activitylogs := activitylogs w1\<rparr>"
  by (auto simp: ActivityLog_create_def split: option.splits)

lemma try_email_frame:
  "try_email w msg rs = (r, w1) \<Longrightarrow> w1 = w\<lparr>transport_calls := transport_calls w1\<rparr>"
  by (auto simp: try_email_def sendEmail_def Let_def split: option.splits if_splits)

lemma dispatch_frame:
  assumes "dispatch w mid msg rs actor addr = (r, w1)"
  shows "w1 = w\<lparr>transport_calls := transport_calls w1, activitylogs := activitylogs w1\<rparr>"
proof (cases "channel msg = Email")
  case False
  then show ?thesis using assms by (auto simp: dispatch_def)
next
  case True
  obtain r0 w0 where t: "try_email w msg rs = (r0, w0)" by (cases "try_email w msg rs")
  note f0 = try_email_frame [OF t]
  show ?thesis
  proof (cases r0)
    case (Inr u)
    then have "w1 = w0" using assms True t by (simp add: dispatch_def)
    then show ?thesis using f0 by (metis world.surjective world.update_convs(4) world.update_convs(5))
  next
    case (Inl e)
    obtain err where e: "e = Error err" by (cases e)
    have "ActivityLog_create w0 (send_error_log mid err actor addr) = (r, w1)"
      using assms True t Inl e by (simp add: dispatch_def)
    from ActivityLog_create_frame [OF this] f0 show ?thesis
      by (metis world.surjective world.update_convs(4) world.update_convs(5))
  qed
qed

lemma send_after_dispatch:
  assumes "faults w (MessageFindById mid) = None" and "map_of (messages w) mid = Some msg"
    and "resolveAudience w msg = Inr rs"
    and "dispatch w mid msg rs actor addr = (Inr u, w1)"
    and "faults w (MessageSave mid) = None"
  shows "sendMessageById w mid actor addr =
     (case faults w (ActivityLogCreate (send_log msg (length rs) actor addr)) of
        Some e \<Rightarrow> (Inl (Error e), w1\<lparr>messages := AList.update mid (mark_sent w msg (length rs)) (messages w)\<rparr>)
      | None \<Rightarrow> (Inr (Some \<lparr>recipientsCount = length rs, messageId = mid\<rparr>),
          w1\<lparr>messages := AList.update mid (mark_sent w msg (length rs)) (messages w),
              activitylogs := activitylogs w1 @ [send_log msg (length rs) actor addr]\<rparr>))"
proof -
  obtain tc al where w1: "w1 = w\<lparr>transport_calls := tc, activitylogs := al\<rparr>"
    using dispatch_frame [OF assms(4)] by blast
  show ?thesis
    using assms by (simp add: sendMessageById_def w1 ActivityLog_create_def mark_sent_def split: option.splits)
qed

lemma dispatch_no_faults:
  assumes "faults w = (\<lambda>c. None)"
  shows "dispatch w mid msg rs actor addr =
     (Inr (), w\<lparr>transport_calls := transport_calls w @
        (if channel msg = Email \<and> resolve_emails w rs \<noteq> [] then [email_of msg (resolve_emails w rs)] else [])\<rparr>)"
  using assms by (simp add: dispatch_def try_email_def sendEmail_def)

lemma send_no_faults:
  assumes "faults w = (\<lambda>c. None)" and "map_of (messages w) mid = Some msg"
    and "resolveAudience w msg = Inr rs"
  shows "sendMessageById w mid actor addr =
     (Inr (Some \<lparr>recipientsCount = length rs, messageId = mid\<rparr>),
      w\<lparr>transport_calls := transport_calls w @
           (if channel msg = Email \<and> resolve_emails w rs \<noteq> [] then [email_of msg (resolve_emails w rs)] else []),
         messages := AList.update mid (mark_sent w msg (length rs)) (messages w),
         activitylogs := activitylogs w @ [send_log msg (length rs) actor addr]\<rparr>)"
  using send_after_dispatch [OF _ assms(2,3) dispatch_no_faults [OF assms(1)], of actor addr]
  by (simp add: assms(1))

section \<open>Audience resolution\<close>

text \<open>
  C3: for a message with no target group the resolved audience is the explicit recipients
  without duplicates, and two recipient lists with the same elements, in whatever order and
  multiplicity, resolve to the same set of the same size.
\<close>

theorem C3_no_group_audience:
  assumes "targetGroup msg = None" and "set rs' = set (recipients msg)"
  shows "\<exists>a a'. resolveAudience w msg = Inr a \<and> set a = set (recipients msg) \<and> distinct a
           \<and> resolveAudience w (msg\<lparr>recipients := rs'\<rparr>) = Inr a'
           \<and> set a' = set a \<and> distinct a' \<and> length a' = length a"
proof -
  have p: "populate w msg = None" "populate w (msg\<lparr>recipients := rs'\<rparr>) = None"
    using assms(1) by (simp_all add: populate_def)
  have "resolveAudience w msg = Inr (dedup (recipients msg))"
    and "resolveAudience w (msg\<lparr>recipients := rs'\<rparr>) = Inr (dedup rs')"
    using p by (simp_all add: resolve_no_group)
  moreover have "length (dedup rs') = length (dedup (recipients msg))"
    using assms(2) by (simp add: length_dedup)
  ultimately show ?thesis
    using assms(2) by (simp add: set_dedup distinct_dedup)
qed

theorem C3_no_group_audience_witness:
  "targetGroup ex_msg = None \<and> set [''alice'', ''bob''] = set (recipients ex_msg)
   \<and> (\<exists>a a'. resolveAudience ex_world ex_msg = Inr a \<and> set a = set (recipients ex_msg) \<and> distinct a
           \<and> resolveAudience ex_world (ex_msg\<lparr>recipients := [''alice'', ''bob'']\<rparr>) = Inr a'
           \<and> set a' = set a \<and> distinct a' \<and> length a' = length a)"
proof -
  have h1: "targetGroup ex_msg = None" by (simp add: ex_msg_def)
  have h2: "set [''alice'', ''bob''] = set (recipients ex_msg)" by (auto simp: ex_msg_def)
  show ?thesis using h1 h2 C3_no_group_audience [OF h1 h2, of ex_world] by simp
qed

text \<open>
  C4: a target group reference whose group is absent from the store is not an error: the
  resolved audience is the explicit recipients without duplicates, and with every
  collaborator answering the send returns their number.
\<close>

theorem C4_missing_group:
  assumes "targetGroup msg = Some gid" and "map_of (groups w) gid = None"
    and "map_of (messages w) mid = Some msg" and "faults w = (\<lambda>c. None)"
  shows "resolveAudience w msg = Inr (dedup (recipients msg))
       \<and> set (dedup (recipients msg)) = set (recipients msg) \<and> distinct (dedup (recipients msg))
       \<and> fst (sendMessageById w mid actor addr) =
            Inr (Some \<lparr>recipientsCount = card (set (recipients msg)), messageId = mid\<rparr>)"
proof -
  have "populate w msg = None" using assms(1,2) by (simp add: populate_def)
  then have r: "resolveAudience w msg = Inr (dedup (recipients msg))" by (rule resolve_no_group)
  show ?thesis
    using r send_no_faults [OF assms(4,3) r, of actor addr]
    by (simp add: set_dedup distinct_dedup length_dedup)
qed

theorem C4_missing_group_witness:
  "targetGroup (ex_msg\<lparr>targetGroup := Some ''g9''\<rparr>) = Some ''g9''
   \<and> map_of (groups (ex_world\<lparr>messages := [(''m1'', ex_msg\<lparr>targetGroup := Some ''g9''\<rparr>)]\<rparr>)) ''g9'' = None
   \<and> resolveAudience (ex_world\<lparr>messages := [(''m1'', ex_msg\<lparr>targetGroup := Some ''g9''\<rparr>)]\<rparr>)
        (ex_msg\<lparr>targetGroup := Some ''g9''\<rparr>) = Inr [''bob'', ''alice'']
   \<and> fst (sendMessageById (ex_world\<lparr>messages := [(''m1'', ex_msg\<lparr>targetGroup := Some ''g9''\<rparr>)]\<rparr>)
        ''m1'' ''admin'' ''10.0.0.1'') = Inr (Some \<lparr>recipientsCount = 2, messageId = ''m1''\<rparr>)"
proof -
  let ?m = "ex_msg\<lparr>targetGroup := Some ''g9''\<rparr>"
  let ?w = "ex_world\<lparr>messages := [(''m1'', ?m)]\<rparr>"
  have h1: "targetGroup ?m = Some ''g9''" by simp
  have h2: "map_of (groups ?w) ''g9'' = None" by (simp add: ex_world_def)
  have h3: "map_of (messages ?w) ''m1'' = Some ?m" by simp
  have h4: "faults ?w = (\<lambda>c. None)" by (simp add: ex_world_def)
  have d: "dedup (recipients ?m) = [''bob'', ''alice'']" by (simp add: ex_msg_def dedup_def)
  have c: "card (set (recipients ?m)) = 2" unfolding length_dedup [symmetric] d by simp
  show ?thesis
    using h1 h2 C4_missing_group [OF h1 h2 h3 h4, of "''admin''" "''10.0.0.1''"] 
    unfolding d c by simp
qed

section \<open>Dispatch over the email channel\<close>

lemma set_filter_Boolean: "set (filter_Boolean es) = {e. Some e \<in> set es \<and> e \<noteq> []}"
  by (induction es rule: filter_Boolean.induct) auto

lemma set_resolve_emails: "set (resolve_emails w rs) = spec_addresses w rs"
  by (auto simp: resolve_emails_def set_filter_Boolean AdminUser_find_in_def spec_addresses_def
      image_iff)

lemma resolve_emails_empty: "resolve_emails w rs = [] \<longleftrightarrow> spec_addresses w rs = {}"
  using set_resolve_emails [of w rs] by (metis set_empty)

lemma saved_message:
  "map_of (AList.update mid m ms) mid = Some m"
  by (simp add: update_conv')

lemma ex_audience: "resolveAudience (ex_world\<lparr>faults := f\<rparr>) ex_msg = Inr [''bob'', ''alice'']"
  by (simp add: resolveAudience_def populate_def ex_msg_def dedup_def)

lemma ex_emails: "resolve_emails (ex_world\<lparr>faults := f\<rparr>) [''bob'', ''alice''] = [''alice@example.com'']"
  by (simp add: resolve_emails_def AdminUser_find_in_def ex_world_def ex_users_def)

text \<open>
  C5: when the transport call of an email-channel message throws, and the audit sink and the
  message store answer, the send still returns the size of the resolved audience, the message
  is saved as sent with that size in its delivery report, and the activity log gains an entry
  \<open>Send Message Error\<close> for the transport error, distinct from the \<open>Send Message\<close> entry
  that follows it.
\<close>

theorem C5_transport_failure:
  assumes "faults w (MessageFindById mid) = None" and "map_of (messages w) mid = Some msg"
    and "channel msg = Email" and "resolveAudience w msg = Inr rs"
    and "faults w (AdminUserFindIn rs) = None" and "resolve_emails w rs \<noteq> []"
    and "faults w (SendEmail (email_of msg (resolve_emails w rs))) = Some err"
    and "faults w (ActivityLogCreate (send_error_log mid err actor addr)) = None"
    and "faults w (MessageSave mid) = None"
    and "faults w (ActivityLogCreate (send_log msg (length rs) actor addr)) = None"
  shows "fst (sendMessageById w mid actor addr) =
           Inr (Some \<lparr>recipientsCount = length rs, messageId = mid\<rparr>)
       \<and> map_of (messages (snd (sendMessageById w mid actor addr))) mid =
           Some (msg\<lparr>status := Sent, sentAt := Some (clock w), deliveryReport := Some (length rs)\<rparr>)
       \<and> activitylogs (snd (sendMessageById w mid actor addr)) =
           activitylogs w @ [send_error_log mid err actor addr, send_log msg (length rs) actor addr]
       \<and> action (send_error_log mid err actor addr) = ''Send Message Error''
       \<and> send_error_log mid err actor addr \<noteq> send_log msg (length rs) actor addr"
proof -
  note d = dispatch_transport_error [OF assms(3,5,6,7,8)]
  have "action (send_error_log mid err actor addr) \<noteq> action (send_log msg (length rs) actor addr)"
    by (simp add: send_error_log_def send_log_def)
  then have ne: "send_error_log mid err actor addr \<noteq> send_log msg (length rs) actor addr"
    by metis
  show ?thesis
    using send_after_dispatch [OF assms(1,2,4) d assms(9)] assms(10) ne
    by (simp add: saved_message mark_sent_def send_error_log_def)
qed

theorem C5_transport_failure_witness:
  "map_of (messages ex_relay_down) ''m1'' = Some ex_msg \<and> channel ex_msg = Email
   \<and> resolveAudience ex_relay_down ex_msg = Inr [''bob'', ''alice'']
   \<and> faults ex_relay_down
        (SendEmail \<lparr>to = [''alice@example.com''], subject = ''Hi'', html = ''<p>Hello</p>''\<rparr>)
        = Some ''relay unreachable''
   \<and> fst (sendMessageById ex_relay_down ''m1'' ''admin'' ''10.0.0.1'') =
        Inr (Some \<lparr>recipientsCount = 2, messageId = ''m1''\<rparr>)
   \<and> map_option status (map_of (messages (snd (sendMessageById ex_relay_down ''m1'' ''admin'' ''10.0.0.1''))) ''m1'')
        = Some Sent
   \<and> map_option deliveryReport (map_of (messages (snd (sendMessageById ex_relay_down ''m1'' ''admin'' ''10.0.0.1''))) ''m1'')
        = Some (Some 2)
   \<and> activitylogs (snd (sendMessageById ex_relay_down ''m1'' ''admin'' ''10.0.0.1'')) =
        [\<lparr>user = ''admin'', action = ''Send Message Error'',
          details = ''Email send failed for m1: relay unreachable'', ip = ''10.0.0.1''\<rparr>,
         \<lparr>user = ''admin'', action = ''Send Message'',
          details = ''Sent message Hi to 2 recipients'', ip = ''10.0.0.1''\<rparr>]"
proof -
  let ?rs = "[''bob'', ''alice'']"
  have h1: "faults ex_relay_down (MessageFindById ''m1'') = None"
    by (simp add: ex_relay_down_def)
  have h2: "map_of (messages ex_relay_down) ''m1'' = Some ex_msg"
    by (simp add: ex_relay_down_def ex_world_def)
  have h3: "channel ex_msg = Email" by (simp add: ex_msg_def)
  have h4: "resolveAudience ex_relay_down ex_msg = Inr ?rs"
    unfolding ex_relay_down_def by (rule ex_audience)
  have em: "resolve_emails ex_relay_down ?rs = [''alice@example.com'']"
    unfolding ex_relay_down_def by (rule ex_emails)
  have h5: "faults ex_relay_down (AdminUserFindIn ?rs) = None"
    by (simp add: ex_relay_down_def)
  have h6: "resolve_emails ex_relay_down ?rs \<noteq> []" by (simp add: em)
  have h7: "faults ex_relay_down (SendEmail (email_of ex_msg (resolve_emails ex_relay_down ?rs)))
              = Some ''relay unreachable''"
    by (simp add: ex_relay_down_def)
  have h8: "faults ex_relay_down
              (ActivityLogCreate (send_error_log ''m1'' ''relay unreachable'' ''admin'' ''10.0.0.1'')) = None"
    by (simp add: ex_relay_down_def)
  have h9: "faults ex_relay_down (MessageSave ''m1'') = None"
    by (simp add: ex_relay_down_def)
  have h10: "faults ex_relay_down
               (ActivityLogCreate (send_log ex_msg (length ?rs) ''admin'' ''10.0.0.1'')) = None"
    by (simp add: ex_relay_down_def)
  have l: "activitylogs ex_relay_down = []" by (simp add: ex_relay_down_def ex_world_def)
  have s: "show_nat (Suc (Suc 0)) = ''2''" by code_simp
  have m: "email_of ex_msg [''alice@example.com''] =
             \<lparr>to = [''alice@example.com''], subject = ''Hi'', html = ''<p>Hello</p>''\<rparr>"
    by (simp add: email_of_def ex_msg_def)
  have t: "title ex_msg = ''Hi''" by (simp add: ex_msg_def)
  show ?thesis
    using h2 h3 h4 h7 C5_transport_failure [OF h1 h2 h3 h4 h5 h6 h7 h8 h9 h10]
    by (simp add: l s m em t send_error_log_def send_log_def numeral_2_eq_2)
qed

text \<open>
  C6: for an email-channel message with at least one address, the transport is called once,
  with exactly the non-empty email addresses of the directory users named in the resolved
  audience, whether or not the call succeeds; the count returned and the count of the delivery
  report are the size of the resolved audience, not the number of addresses.
\<close>

theorem C6_transport_addresses:
  assumes "faults w (MessageFindById mid) = None" and "map_of (messages w) mid = Some msg"
    and "channel msg = Email" and "resolveAudience w msg = Inr rs"
    and "faults w (AdminUserFindIn rs) = None" and "spec_addresses w rs \<noteq> {}"
    and "\<And>entry. faults w (ActivityLogCreate entry) = None"
    and "faults w (MessageSave mid) = None"
  shows "transport_calls (snd (sendMessageById w mid actor addr)) =
           transport_calls w @
             [\<lparr>to = resolve_emails w rs, subject = title msg, html = ''<p>'' @ body msg @ ''</p>''\<rparr>]
       \<and> set (resolve_emails w rs) = spec_addresses w rs
       \<and> fst (sendMessageById w mid actor addr) =
           Inr (Some \<lparr>recipientsCount = length rs, messageId = mid\<rparr>)
       \<and> map_option deliveryReport (map_of (messages (snd (sendMessageById w mid actor addr))) mid) =
           Some (Some (length rs))"
proof -
  have e: "resolve_emails w rs \<noteq> []" using assms(6) by (simp add: resolve_emails_empty)
  show ?thesis
  proof (cases "faults w (SendEmail (email_of msg (resolve_emails w rs)))")
    case None
    note d = dispatch_delivered [OF assms(3,5) e None]
    show ?thesis
      using send_after_dispatch [OF assms(1,2,4) d assms(8)] assms(7)
      by (simp add: saved_message mark_sent_def email_of_def set_resolve_emails)
  next
    case (Some err)
    note d = dispatch_transport_error [OF assms(3,5) e Some assms(7)]
    show ?thesis
      using send_after_dispatch [OF assms(1,2,4) d assms(8)] assms(7)
      by (simp add: saved_message mark_sent_def email_of_def set_resolve_emails)
  qed
qed

theorem C6_transport_addresses_witness:
  "map_of (messages ex_world) ''m1'' = Some ex_msg \<and> channel ex_msg = Email
   \<and> resolveAudience ex_world ex_msg = Inr [''bob'', ''alice'']
   \<and> spec_addresses ex_world [''bob'', ''alice''] = {''alice@example.com''}
   \<and> transport_calls (snd (sendMessageById ex_world ''m1'' ''admin'' ''10.0.0.1'')) =
        [\<lparr>to = [''alice@example.com''], subject = ''Hi'', html = ''<p>Hello</p>''\<rparr>]
   \<and> fst (sendMessageById ex_world ''m1'' ''admin'' ''10.0.0.1'') =
        Inr (Some \<lparr>recipientsCount = 2, messageId = ''m1''\<rparr>)
   \<and> map_option deliveryReport (map_of (messages (snd (sendMessageById ex_world ''m1'' ''admin'' ''10.0.0.1''))) ''m1'')
        = Some (Some 2)"
proof -
  let ?rs = "[''bob'', ''alice'']"
  have w: "ex_world = ex_world\<lparr>faults := (\<lambda>c. None)\<rparr>" by (simp add: ex_world_def)
  have h1: "faults ex_world (MessageFindById ''m1'') = None" by (simp add: ex_world_def)
  have h2: "map_of (messages ex_world) ''m1'' = Some ex_msg" by (simp add: ex_world_def)
  have h3: "channel ex_msg = Email" by (simp add: ex_msg_def)
  have h4: "resolveAudience ex_world ex_msg = Inr ?rs" using ex_audience [of "\<lambda>c. None"] w by simp
  have em: "resolve_emails ex_world ?rs = [''alice@example.com'']" using ex_emails [of "\<lambda>c. None"] w by simp
  have h5: "faults ex_world (AdminUserFindIn ?rs) = None" by (simp add: ex_world_def)
  have sa: "spec_addresses ex_world ?rs = {''alice@example.com''}"
    using em set_resolve_emails [of ex_world ?rs] by simp
  have h6: "spec_addresses ex_world ?rs \<noteq> {}" by (simp add: sa)
  have h7: "\<And>entry. faults ex_world (ActivityLogCreate entry) = None" by (simp add: ex_world_def)
  have h8: "faults ex_world (MessageSave ''m1'') = None" by (simp add: ex_world_def)
  have t: "transport_calls ex_world = []" "title ex_msg = ''Hi''" "body ex_msg = ''Hello''"
    by (simp_all add: ex_world_def ex_msg_def)
  show ?thesis
    using h2 h3 h4 sa C6_transport_addresses [OF h1 h2 h3 h4 h5 h6 h7 h8, where actor = "''admin''" and addr = "''10.0.0.1''"]
    by (simp add: em t numeral_2_eq_2)
qed

text \<open>
  C10: when no user of the resolved audience has a non-empty email address, an email-channel
  message causes no transport call, and is still saved as sent with the size of the resolved
  audience, which the send returns.
\<close>

theorem C10_no_addresses:
  assumes "faults w (MessageFindById mid) = None" and "map_of (messages w) mid = Some msg"
    and "channel msg = Email" and "resolveAudience w msg = Inr rs"
    and "faults w (AdminUserFindIn rs) = None" and "spec_addresses w rs = {}"
    and "faults w (MessageSave mid) = None"
    and "faults w (ActivityLogCreate (send_log msg (length rs) actor addr)) = None"
  shows "fst (sendMessageById w mid actor addr) =
           Inr (Some \<lparr>recipientsCount = length rs, messageId = mid\<rparr>)
       \<and> transport_calls (snd (sendMessageById w mid actor addr)) = transport_calls w
       \<and> map_of (messages (snd (sendMessageById w mid actor addr))) mid =
           Some (msg\<lparr>status := Sent, sentAt := Some (clock w), deliveryReport := Some (length rs)\<rparr>)"
proof -
  have e: "resolve_emails w rs = []" using assms(6) by (simp add: resolve_emails_empty)
  have d: "dispatch w mid msg rs actor addr = (Inr (), w)"
    using assms(3,5) e by (rule dispatch_no_address)
  show ?thesis
    using send_after_dispatch [OF assms(1,2,4) d assms(7)] assms(8)
    by (simp add: saved_message mark_sent_def)
qed

theorem C10_no_addresses_witness:
  "faults ex_no_address (MessageFindById ''m1'') = None
   \<and> map_of (messages ex_no_address) ''m1'' = Some (ex_msg\<lparr>recipients := [''bob'']\<rparr>)
   \<and> channel (ex_msg\<lparr>recipients := [''bob'']\<rparr>) = Email
   \<and> resolveAudience ex_no_address (ex_msg\<lparr>recipients := [''bob'']\<rparr>) = Inr [''bob'']
   \<and> spec_addresses ex_no_address [''bob''] = {}
   \<and> fst (sendMessageById ex_no_address ''m1'' ''admin'' ''10.0.0.1'') =
        Inr (Some \<lparr>recipientsCount = 1, messageId = ''m1''\<rparr>)
   \<and> transport_calls (snd (sendMessageById ex_no_address ''m1'' ''admin'' ''10.0.0.1'')) = []
   \<and> map_option status (map_of (messages (snd (sendMessageById ex_no_address ''m1'' ''admin'' ''10.0.0.1''))) ''m1'')
        = Some Sent
   \<and> map_option deliveryReport (map_of (messages (snd (sendMessageById ex_no_address ''m1'' ''admin'' ''10.0.0.1''))) ''m1'')
        = Some (Some 1)"
proof -
  let ?m = "ex_msg\<lparr>recipients := [''bob'']\<rparr>"
  have h1: "faults ex_no_address (MessageFindById ''m1'') = None"
    by (simp add: ex_no_address_def ex_world_def)
  have h2: "map_of (messages ex_no_address) ''m1'' = Some ?m"
    by (simp add: ex_no_address_def)
  have h3: "channel ?m = Email" by (simp add: ex_msg_def)
  have h4: "resolveAudience ex_no_address ?m = Inr [''bob'']"
    by (simp add: resolveAudience_def populate_def ex_msg_def dedup_def)
  have h5: "faults ex_no_address (AdminUserFindIn [''bob'']) = None"
    by (simp add: ex_no_address_def ex_world_def)
  have h6: "spec_addresses ex_no_address [''bob''] = {}"
    by (simp add: spec_addresses_def ex_no_address_def ex_world_def ex_users_def)
  have h7: "faults ex_no_address (MessageSave ''m1'') = None"
    by (simp add: ex_no_address_def ex_world_def)
  have h8: "faults ex_no_address (ActivityLogCreate (send_log ?m (length [''bob'']) ''admin'' ''10.0.0.1'')) = None"
    by (simp add: ex_no_address_def ex_world_def)
  have t: "transport_calls ex_no_address = []" by (simp add: ex_no_address_def ex_world_def)
  show ?thesis
    using h1 h2 h3 h4 h6 C10_no_addresses [OF h1 h2 h3 h4 h5 h6 h7 h8] by (simp add: t)
qed

section \<open>Sending a message again\<close>

lemma resolve_no_faults:
  "faults w = (\<lambda>c. None) \<Longrightarrow> \<exists>rs. resolveAudience w msg = Inr rs"
  by (simp add: resolveAudience_def Let_def split: option.splits prod.splits)

lemma ex_already_sent_run:
  "sendMessageById ex_already_sent ''m1'' ''admin'' ''10.0.0.1'' =
     (Inr (Some \<lparr>recipientsCount = 2, messageId = ''m1''\<rparr>),
      ex_already_sent\<lparr>transport_calls :=
          [\<lparr>to = [''alice@example.com''], subject = ''Hi'', html = ''<p>Hello</p>''\<rparr>],
        messages := [(''m1'', ex_sent_msg\<lparr>sentAt := Some 1000, deliveryReport := Some 2\<rparr>)],
        activitylogs := [send_log ex_sent_msg 2 ''admin'' ''10.0.0.1'']\<rparr>)"
proof -
  let ?rs = "[''bob'', ''alice'']"
  have f: "faults ex_already_sent = (\<lambda>c. None)" by (simp add: ex_already_sent_def ex_world_def)
  have m: "map_of (messages ex_already_sent) ''m1'' = Some ex_sent_msg"
    by (simp add: ex_already_sent_def)
  have r: "resolveAudience ex_already_sent ex_sent_msg = Inr ?rs"
    by (simp add: resolveAudience_def populate_def ex_sent_msg_def ex_msg_def dedup_def)
  have e: "resolve_emails ex_already_sent ?rs = [''alice@example.com'']"
    by (simp add: resolve_emails_def AdminUser_find_in_def ex_already_sent_def ex_world_def ex_users_def)
  have c: "channel ex_sent_msg = Email" by (simp add: ex_sent_msg_def ex_msg_def)
  have s: "sendMessageById ex_already_sent ''m1'' ''admin'' ''10.0.0.1'' =
     (Inr (Some \<lparr>recipientsCount = length ?rs, messageId = ''m1''\<rparr>),
      ex_already_sent\<lparr>transport_calls :=
          transport_calls ex_already_sent @ [email_of ex_sent_msg [''alice@example.com'']],
        messages := AList.update ''m1'' (mark_sent ex_already_sent ex_sent_msg (length ?rs))
                      (messages ex_already_sent),
        activitylogs := activitylogs ex_already_sent
                          @ [send_log ex_sent_msg (length ?rs) ''admin'' ''10.0.0.1'']\<rparr>)"
    using send_no_faults [OF f m r, of "''admin''" "''10.0.0.1''"] by (simp add: e c)
  show ?thesis
    unfolding s
    by (simp add: email_of_def mark_sent_def ex_sent_msg_def ex_msg_def ex_already_sent_def
        ex_world_def numeral_2_eq_2)
qed

text \<open>
  \<open>sendMessageById\<close> never reads the status of the message it loads. A message already
  sent at instant 500, with one recipient reported, is sent again at instant 1000: \<open>sentAt\<close>
  and the delivery report are overwritten and the transport is called.
\<close>

theorem C1_resend_counterexample:
  "map_of (messages ex_already_sent) ''m1'' = Some ex_sent_msg \<and> status ex_sent_msg = Sent
   \<and> sentAt ex_sent_msg = Some 500 \<and> deliveryReport ex_sent_msg = Some 1
   \<and> transport_calls ex_already_sent = []
   \<and> map_option sentAt
        (map_of (messages (snd (sendMessageById ex_already_sent ''m1'' ''admin'' ''10.0.0.1''))) ''m1'')
        = Some (Some 1000)
   \<and> map_option deliveryReport
        (map_of (messages (snd (sendMessageById ex_already_sent ''m1'' ''admin'' ''10.0.0.1''))) ''m1'')
        = Some (Some 2)
   \<and> transport_calls (snd (sendMessageById ex_already_sent ''m1'' ''admin'' ''10.0.0.1'')) =
        [\<lparr>to = [''alice@example.com''], subject = ''Hi'', html = ''<p>Hello</p>''\<rparr>]"
  unfolding ex_already_sent_run
  by (simp add: ex_already_sent_def ex_sent_msg_def ex_world_def)

text \<open>
  C1, as the code has it: on a message whose status is already \<open>sent\<close> or \<open>failed\<close>, with
  every collaborator answering, a send resolves the audience afresh, returns its size, saves
  the message as sent with \<open>sentAt\<close> set to the current time and the delivery report set to
  that size, and calls the transport when the channel is email and there is an address.
\<close>

theorem C1_terminal_resend:
  assumes "status msg = Sent \<or> status msg = Failed"
    and "map_of (messages w) mid = Some msg" and "faults w = (\<lambda>c. None)"
  shows "\<exists>rs. resolveAudience w msg = Inr rs
       \<and> fst (sendMessageById w mid actor addr) =
           Inr (Some \<lparr>recipientsCount = length rs, messageId = mid\<rparr>)
       \<and> map_of (messages (snd (sendMessageById w mid actor addr))) mid =
           Some (msg\<lparr>status := Sent, sentAt := Some (clock w), deliveryReport := Some (length rs)\<rparr>)
       \<and> transport_calls (snd (sendMessageById w mid actor addr)) =
           transport_calls w @
             (if channel msg = Email \<and> resolve_emails w rs \<noteq> []
              then [email_of msg (resolve_emails w rs)] else [])"
proof -
  obtain rs where r: "resolveAudience w msg = Inr rs"
    using resolve_no_faults [OF assms(3)] by blast
  show ?thesis
    using r send_no_faults [OF assms(3,2) r, of actor addr]
    by (simp add: saved_message mark_sent_def)
qed

theorem C1_terminal_resend_witness:
  "(status ex_sent_msg = Sent \<or> status ex_sent_msg = Failed)
   \<and> map_of (messages ex_already_sent) ''m1'' = Some ex_sent_msg
   \<and> faults ex_already_sent = (\<lambda>c. None)
   \<and> (\<exists>rs. resolveAudience ex_already_sent ex_sent_msg = Inr rs
       \<and> fst (sendMessageById ex_already_sent ''m1'' ''admin'' ''10.0.0.1'') =
           Inr (Some \<lparr>recipientsCount = length rs, messageId = ''m1''\<rparr>)
       \<and> map_of (messages (snd (sendMessageById ex_already_sent ''m1'' ''admin'' ''10.0.0.1''))) ''m1'' =
           Some (ex_sent_msg\<lparr>status := Sent, sentAt := Some (clock ex_already_sent),
                              deliveryReport := Some (length rs)\<rparr>)
       \<and> transport_calls (snd (sendMessageById ex_already_sent ''m1'' ''admin'' ''10.0.0.1'')) =
           transport_calls ex_already_sent @
             (if channel ex_sent_msg = Email \<and> resolve_emails ex_already_sent rs \<noteq> []
              then [email_of ex_sent_msg (resolve_emails ex_already_sent rs)] else []))"
proof -
  have h1: "status ex_sent_msg = Sent \<or> status ex_sent_msg = Failed" by (simp add: ex_sent_msg_def)
  have h2: "map_of (messages ex_already_sent) ''m1'' = Some ex_sent_msg"
    by (simp add: ex_already_sent_def)
  have h3: "faults ex_already_sent = (\<lambda>c. None)" by (simp add: ex_already_sent_def ex_world_def)
  show ?thesis
    using h1 h2 h3 C1_terminal_resend [OF h1 h2 h3, of "''admin''" "''10.0.0.1''"] by blast
qed

section \<open>The audit sink\<close>

text \<open>
  C7: the \<open>Send Message\<close> entry is written by a bare \<open>ActivityLog.create\<close> (line 59), not by
  the guarded \<open>logActivity\<close> of the routes. When the audit sink rejects it, the send rejects
  with the sink's error instead of returning the count; the message has been saved as sent.
\<close>

theorem C7_audit_failure_rejects:
  "map_of (messages ex_audit_down) ''m1'' = Some (ex_msg\<lparr>channel := InApp\<rparr>)
   \<and> fst (sendMessageById ex_audit_down ''m1'' ''admin'' ''10.0.0.1'') = Inl (Error ''audit sink down'')
   \<and> map_of (messages (snd (sendMessageById ex_audit_down ''m1'' ''admin'' ''10.0.0.1''))) ''m1'' =
        Some (ex_msg\<lparr>channel := InApp, status := Sent, sentAt := Some 1000, deliveryReport := Some 2\<rparr>)"
proof -
  let ?m = "ex_msg\<lparr>channel := InApp\<rparr>"
  let ?rs = "[''bob'', ''alice'']"
  have h1: "faults ex_audit_down (MessageFindById ''m1'') = None" by (simp add: ex_audit_down_def)
  have h2: "map_of (messages ex_audit_down) ''m1'' = Some ?m" by (simp add: ex_audit_down_def)
  have h3: "resolveAudience ex_audit_down ?m = Inr ?rs"
    by (simp add: resolveAudience_def populate_def ex_msg_def dedup_def)
  have h4: "dispatch ex_audit_down ''m1'' ?m ?rs ''admin'' ''10.0.0.1'' = (Inr (), ex_audit_down)"
    by (simp add: dispatch_other_channel)
  have h5: "faults ex_audit_down (MessageSave ''m1'') = None" by (simp add: ex_audit_down_def)
  have h6: "faults ex_audit_down (ActivityLogCreate (send_log ?m (length ?rs) ''admin'' ''10.0.0.1''))
              = Some ''audit sink down''"
    by (simp add: ex_audit_down_def)
  have c: "clock ex_audit_down = 1000" by (simp add: ex_audit_down_def ex_world_def)
  show ?thesis
    using h2 send_after_dispatch [OF h1 h2 h3 h4 h5] h6
    by (simp add: saved_message mark_sent_def c numeral_2_eq_2)
qed

section \<open>The audience of a group\<close>

lemma update_fresh: "k \<notin> fst ` set al \<Longrightarrow> AList.update k v al = al @ [(k, v)]"
  by (induction al) auto

lemma fold_query_distinct:
  "distinct (map fst fs) \<Longrightarrow> fst ` set q \<inter> fst ` set fs = {} \<Longrightarrow>
   fold (\<lambda>(k, v) query. if k \<in> set allowed then AList.update k v query else query) fs q
     = q @ filter (\<lambda>(k, v). k \<in> set allowed) fs"
proof (induction fs arbitrary: q)
  case Nil
  then show ?case by simp
next
  case (Cons kv fs)
  obtain k v where kv: "kv = (k, v)" by (cases kv)
  have d: "distinct (map fst fs)" and k: "k \<notin> fst ` set fs" and kq: "k \<notin> fst ` set q"
    and q: "fst ` set q \<inter> fst ` set fs = {}"
    using Cons.prems by (auto simp: kv)
  show ?case
  proof (cases "k \<in> set allowed")
    case True
    have "fst ` set (q @ [(k, v)]) \<inter> fst ` set fs = {}" using q k by auto
    from Cons.IH [OF d this] show ?thesis
      using True kq by (simp add: kv update_fresh)
  next
    case False
    from Cons.IH [OF d q] show ?thesis using False by (simp add: kv)
  qed
qed

lemma build_query_distinct:
  "distinct (map fst fs) \<Longrightarrow> build_query fs = spec_projected fs"
proof -
  assume "distinct (map fst fs)"
  then have "build_query fs = filter (\<lambda>(k, v). k \<in> set allowed) fs"
    unfolding build_query_def using fold_query_distinct [of fs "[]"] by simp
  also have "\<dots> = spec_projected fs"
    unfolding spec_projected_def allowed_def by (rule filter_cong) auto
  finally show ?thesis .
qed

lemma fold_query_update:
  "k \<notin> set allowed \<Longrightarrow>
   fold (\<lambda>(k, v) query. if k \<in> set allowed then AList.update k v query else query)
     (AList.update k v fs) q
   = fold (\<lambda>(k, v) query. if k \<in> set allowed then AList.update k v query else query) fs q"
  by (induction fs arbitrary: q) auto

lemma fold_query_delete:
  "k \<notin> set allowed \<Longrightarrow>
   fold (\<lambda>(k, v) query. if k \<in> set allowed then AList.update k v query else query)
     (AList.delete k fs) q
   = fold (\<lambda>(k, v) query. if k \<in> set allowed then AList.update k v query else query) fs q"
  by (induction fs arbitrary: q) auto

lemma build_query_update: "k \<notin> set allowed \<Longrightarrow> build_query (AList.update k v fs) = build_query fs"
  by (simp add: build_query_def fold_query_update)

lemma build_query_delete: "k \<notin> set allowed \<Longrightarrow> build_query (AList.delete k fs) = build_query fs"
  by (simp add: build_query_def fold_query_delete)

lemma build_query_Nil: "build_query [] = []"
  by (simp add: build_query_def)

lemma find_usernames:
  "spec_projected fs \<noteq> [] \<Longrightarrow>
   set (map username (AdminUser_find w (spec_projected fs))) = spec_directory_matches w fs"
  by (auto simp: AdminUser_find_def matches_def spec_directory_matches_def list_all_iff)

lemma no_projection_no_matches: "spec_projected fs = [] \<Longrightarrow> spec_directory_matches w fs = {}"
  by (simp add: spec_directory_matches_def)

lemma resolve_group:
  assumes "targetGroup msg = Some gid" and "map_of (groups w) gid = Some grp"
    and "faults w (UserGroupFindById gid) = None"
  shows "resolveAudience w msg =
     (if build_query (filters grp) \<noteq> [] then
        (case faults w (AdminUserFind (build_query (filters grp))) of
           Some e \<Rightarrow> Inl (Error e)
         | None \<Rightarrow> Inr (dedup (recipients msg @ map member_username (members grp)
                               @ map username (AdminUser_find w (build_query (filters grp))))))
      else Inr (dedup (recipients msg @ map member_username (members grp))))"
  using assms
  by (auto simp: resolveAudience_def populate_def Let_def build_query_Nil split: option.splits)

text \<open>
  C2: for a message whose target group is present, the resolved audience is, without
  duplicates, the union of the explicit recipients, the manual members' usernames and the
  directory users matching the conjunction of the group's filters projected onto the
  allow-list. Adding or removing a key outside the allow-list, whatever its value, leaves the
  audience as it is.
\<close>

theorem C2_group_audience:
  assumes "targetGroup msg = Some gid" and "map_of (groups w) gid = Some grp"
    and "distinct (map fst (filters grp))"
    and "faults w (UserGroupFindById gid) = None"
    and "faults w (AdminUserFind (spec_projected (filters grp))) = None"
  shows "\<exists>a. resolveAudience w msg = Inr a \<and> distinct a
       \<and> set a = spec_audience w msg grp
       \<and> (\<forall>k v. k \<notin> set allowed \<longrightarrow>
             resolveAudience
               (w\<lparr>groups := AList.update gid (grp\<lparr>filters := AList.update k v (filters grp)\<rparr>) (groups w)\<rparr>)
               msg = Inr a
           \<and> resolveAudience
               (w\<lparr>groups := AList.update gid (grp\<lparr>filters := AList.delete k (filters grp)\<rparr>) (groups w)\<rparr>)
               msg = Inr a)"
proof -
  let ?q = "build_query (filters grp)"
  let ?rs = "recipients msg @ map member_username (members grp)"
  let ?a = "if ?q \<noteq> [] then dedup (?rs @ map username (AdminUser_find w ?q)) else dedup ?rs"
  have q: "?q = spec_projected (filters grp)" using assms(3) by (rule build_query_distinct)
  have r: "resolveAudience w msg = Inr ?a"
    using resolve_group [OF assms(1,2,4)] assms(5) by (simp add: q)
  have s: "set ?a = spec_audience w msg grp"
  proof (cases "spec_projected (filters grp) = []")
    case True
    then show ?thesis
      by (simp add: spec_audience_def no_projection_no_matches set_dedup q)
  next
    case False
    then show ?thesis
      using find_usernames [OF False, of w]
      by (simp add: spec_audience_def set_dedup q Un_assoc)
  qed
  have d: "distinct ?a" by (simp add: distinct_dedup)
  have i: "resolveAudience (w\<lparr>groups := AList.update gid (grp\<lparr>filters := fs\<rparr>) (groups w)\<rparr>) msg = Inr ?a"
    if "build_query fs = ?q" for fs
  proof -
    let ?w = "w\<lparr>groups := AList.update gid (grp\<lparr>filters := fs\<rparr>) (groups w)\<rparr>"
    have g: "map_of (groups ?w) gid = Some (grp\<lparr>filters := fs\<rparr>)" by (simp add: update_conv')
    have f: "faults ?w (UserGroupFindById gid) = None" using assms(4) by simp
    show ?thesis
      using resolve_group [OF assms(1) g f] assms(5) that
      by (simp add: q AdminUser_find_def)
  qed
  have k: "\<forall>k v. k \<notin> set allowed \<longrightarrow>
             resolveAudience
               (w\<lparr>groups := AList.update gid (grp\<lparr>filters := AList.update k v (filters grp)\<rparr>) (groups w)\<rparr>)
               msg = Inr ?a
           \<and> resolveAudience
               (w\<lparr>groups := AList.update gid (grp\<lparr>filters := AList.delete k (filters grp)\<rparr>) (groups w)\<rparr>)
               msg = Inr ?a"
    using i [OF build_query_update] i [OF build_query_delete] by simp
  show ?thesis
    apply (rule exI [of _ ?a])
    apply (intro conjI)
       apply (rule r)
      apply (rule d)
     apply (rule s)
    apply (rule k)
    done
qed

theorem C2_group_audience_witness:
  "targetGroup ex_group_msg = Some ''g1'' \<and> map_of (groups ex_group_world) ''g1'' = Some ex_group
   \<and> distinct (map fst (filters ex_group)) \<and> ''department'' \<notin> set allowed
   \<and> resolveAudience ex_group_world ex_group_msg = Inr [''dave'', ''alice'', ''bob'']
   \<and> spec_audience ex_group_world ex_group_msg ex_group = {''dave'', ''alice'', ''bob''}
   \<and> resolveAudience
        (ex_group_world\<lparr>groups := AList.update ''g1''
           (ex_group\<lparr>filters := AList.update ''department'' (VStr ''sales'') (filters ex_group)\<rparr>)
           (groups ex_group_world)\<rparr>)
        ex_group_msg = Inr [''dave'', ''alice'', ''bob'']
   \<and> map_of (groups ex_dept_world) ''g1'' = Some ex_dept_group
   \<and> distinct (map fst (filters ex_dept_group))
   \<and> resolveAudience ex_dept_world ex_group_msg = Inr [''dave'', ''alice'']
   \<and> spec_audience ex_dept_world ex_group_msg ex_dept_group = {''dave'', ''alice''}"
proof -
  have h1: "targetGroup ex_group_msg = Some ''g1''" by (simp add: ex_group_msg_def)
  have h2: "map_of (groups ex_group_world) ''g1'' = Some ex_group"
    by (simp add: ex_group_world_def ex_world_def)
  have h3: "distinct (map fst (filters ex_group))" by (simp add: ex_group_def)
  have h4: "faults ex_group_world (UserGroupFindById ''g1'') = None"
    by (simp add: ex_group_world_def ex_world_def)
  have h5: "faults ex_group_world (AdminUserFind (spec_projected (filters ex_group))) = None"
    by (simp add: ex_group_world_def ex_world_def)
  have k: "''department'' \<notin> set allowed" by (simp add: allowed_def)
  have p: "spec_projected (filters ex_group) = [(''role'', VStr ''moderator'')]"
    by (simp add: spec_projected_def ex_group_def)
  have q: "build_query (filters ex_group) = [(''role'', VStr ''moderator'')]"
    by (simp add: build_query_def allowed_def ex_group_def)
  have f: "map username (AdminUser_find ex_group_world [(''role'', VStr ''moderator'')]) = [''bob'']"
    by (simp add: AdminUser_find_def matches_def user_field_def ex_group_world_def ex_world_def
        ex_users_def)
  have e: "resolveAudience ex_group_world ex_group_msg = Inr [''dave'', ''alice'', ''bob'']"
    unfolding resolve_group [OF h1 h2 h4] q
    by (simp add: f h5 [unfolded p] ex_group_msg_def ex_group_def dedup_def)
  obtain a where a: "resolveAudience ex_group_world ex_group_msg = Inr a"
    and s: "set a = spec_audience ex_group_world ex_group_msg ex_group"
    and i: "\<forall>k v. k \<notin> set allowed \<longrightarrow>
             resolveAudience
               (ex_group_world\<lparr>groups := AList.update ''g1''
                  (ex_group\<lparr>filters := AList.update k v (filters ex_group)\<rparr>) (groups ex_group_world)\<rparr>)
               ex_group_msg = Inr a
           \<and> resolveAudience
               (ex_group_world\<lparr>groups := AList.update ''g1''
                  (ex_group\<lparr>filters := AList.delete k (filters ex_group)\<rparr>) (groups ex_group_world)\<rparr>)
               ex_group_msg = Inr a"
    using C2_group_audience [OF h1 h2 h3 h4 h5] by blast
  have a': "a = [''dave'', ''alice'', ''bob'']" using a e by simp
  have s': "spec_audience ex_group_world ex_group_msg ex_group = {''dave'', ''alice'', ''bob''}"
    using s unfolding a' by simp
  from i k have u: "resolveAudience
        (ex_group_world\<lparr>groups := AList.update ''g1''
           (ex_group\<lparr>filters := AList.update ''department'' (VStr ''sales'') (filters ex_group)\<rparr>)
           (groups ex_group_world)\<rparr>)
        ex_group_msg = Inr [''dave'', ''alice'', ''bob'']" unfolding a' by blast
  have g2: "map_of (groups ex_dept_world) ''g1'' = Some ex_dept_group"
    by (simp add: ex_dept_world_def)
  have g3: "distinct (map fst (filters ex_dept_group))" by (simp add: ex_dept_group_def)
  have g4: "faults ex_dept_world (UserGroupFindById ''g1'') = None"
    by (simp add: ex_dept_world_def ex_world_def)
  have g5: "faults ex_dept_world (AdminUserFind (spec_projected (filters ex_dept_group))) = None"
    by (simp add: ex_dept_world_def ex_world_def)
  have e2: "resolveAudience ex_dept_world ex_group_msg = Inr [''dave'', ''alice'']"
    by (simp add: resolveAudience_def populate_def ex_dept_world_def ex_group_msg_def
        ex_dept_group_def ex_group_def ex_world_def build_query_def allowed_def dedup_def)
  obtain b where b: "resolveAudience ex_dept_world ex_group_msg = Inr b"
    and t: "set b = spec_audience ex_dept_world ex_group_msg ex_dept_group"
    using C2_group_audience [OF h1 g2 g3 g4 g5] by blast
  have b': "b = [''dave'', ''alice'']" using b e2 by simp
  have t': "spec_audience ex_dept_world ex_group_msg ex_dept_group = {''dave'', ''alice''}"
    using t unfolding b' by simp
  show ?thesis using h1 h2 h3 k e s' u g2 g3 e2 t' by blast
qed

section \<open>The initial status of a message\<close>

lemma initial_status_iff:
  assumes "parse [] = None" and "0 \<le> now"
  shows "initial_status parse now v =
     (if provided v \<and> (\<exists>t. Date_getTime parse v = Some t \<and> now < t) then Scheduled else Draft)"
  using assms by (cases v) (auto simp: initial_status_def provided_def split: option.splits)

lemma post_messages_status:
  "fst (post_messages parse castDate new_id w req) = Created msg \<Longrightarrow>
   status msg = initial_status parse (clock w) (req_scheduledAt req)"
  by (auto simp: post_messages_def Let_def split: if_splits option.splits prod.splits)

text \<open>
  C9: \<open>POST /messages\<close> decides the status from \<open>new Date\<close> of the raw \<open>scheduledAt\<close> value
  (lines 339-344), not from the instant the created message carries. A request whose
  \<open>scheduledAt\<close> is the digit string \<open>1893456000000\<close>, which \<open>new Date\<close> does not parse and the
  cast of the schema stores as that many milliseconds, is created with an instant after the
  clock and yet as \<open>draft\<close>; the ISO spelling of the same instant is created as \<open>scheduled\<close>.
\<close>

theorem C9_digit_string_draft:
  "fst (post_messages ex_parse (mongoose_castDate ex_parse ex_millis) ''m2'' ex_world ex_digit_request)
     = Created ex_digit_created
   \<and> req_scheduledAt ex_digit_request = JStr ''1893456000000''
   \<and> scheduledAt ex_digit_created = Some 1893456000000
   \<and> clock ex_world < 1893456000000
   \<and> status ex_digit_created = Draft
   \<and> fst (post_messages ex_parse (mongoose_castDate ex_parse ex_millis) ''m2'' ex_world ex_request)
     = Created ex_created
   \<and> req_scheduledAt ex_request = JStr ''2030-01-01T00:00:00.000Z''
   \<and> scheduledAt ex_created = Some 1893456000000
   \<and> status ex_created = Scheduled"
proof -
  have d: "fst (post_messages ex_parse (mongoose_castDate ex_parse ex_millis) ''m2'' ex_world
                  ex_digit_request) = Created ex_digit_created"
    by (simp add: post_messages_def or_else_def channel_of_def mongoose_castDate_def ex_parse_def
        ex_millis_def ex_digit_request_def ex_request_def ex_digit_created_def ex_created_def
        initial_status_def ex_world_def Let_def)
  have i: "fst (post_messages ex_parse (mongoose_castDate ex_parse ex_millis) ''m2'' ex_world
                  ex_request) = Created ex_created"
    by (simp add: post_messages_def or_else_def channel_of_def mongoose_castDate_def ex_parse_def
        ex_millis_def ex_request_def ex_created_def initial_status_def ex_world_def Let_def)
  show ?thesis
    using d i
    by (simp add: ex_digit_request_def ex_request_def ex_digit_created_def ex_created_def
        ex_world_def)
qed

section \<open>The scheduler\<close>

lemma dispatch_keeps:
  assumes "dispatch w mid msg rs actor addr = (r, w1)"
  shows "messages w1 = messages w" and "groups w1 = groups w" and "users w1 = users w"
    and "clock w1 = clock w" and "faults w1 = faults w"
  by (subst dispatch_frame [OF assms], simp)+

lemma resolve_cong:
  assumes "groups w = groups v" and "users w = users v" and "faults w = faults v"
  shows "resolveAudience w msg = resolveAudience v msg"
  unfolding resolveAudience_def populate_def AdminUser_find_def assms ..

lemma dispatch_fst_cong:
  assumes "users w = users v" and "faults w = faults v"
  shows "fst (dispatch w mid msg rs actor addr) = fst (dispatch v mid msg rs actor addr)"
  unfolding dispatch_def try_email_def sendEmail_def ActivityLog_create_def resolve_emails_def
      AdminUser_find_in_def Let_def assms
  by (simp add: assms split: option.splits)

lemma reaches_save_cong:
  "groups w = groups v \<Longrightarrow> users w = users v \<Longrightarrow> faults w = faults v \<Longrightarrow>
   reaches_save w mid msg actor addr = reaches_save v mid msg actor addr"
  using resolve_cong [of w v msg] dispatch_fst_cong [of w v mid msg _ actor addr]
  by (simp add: reaches_save_def split: sum.splits)

lemma send_messages:
  "messages (snd (sendMessageById w mid actor addr)) =
     (case map_of (messages w) mid of
        None \<Rightarrow> messages w
      | Some msg \<Rightarrow>
          if reaches_save w mid msg actor addr
          then AList.update mid (mark_sent w msg (length (projr (resolveAudience w msg)))) (messages w)
          else messages w)"
proof (cases "map_of (messages w) mid")
  case None
  then show ?thesis by (simp add: sendMessageById_def split: option.splits)
next
  case (Some msg)
  show ?thesis
  proof (cases "resolveAudience w msg")
    case (Inl e)
    then show ?thesis using Some
      by (simp add: sendMessageById_def reaches_save_def split: option.splits)
  next
    case (Inr rs)
    obtain r w1 where d: "dispatch w mid msg rs actor addr = (r, w1)"
      by (cases "dispatch w mid msg rs actor addr")
    note k = dispatch_keeps [OF d]
    show ?thesis
      using Some Inr d k
      by (simp add: sendMessageById_def reaches_save_def ActivityLog_create_def mark_sent_def
          Let_def split: option.splits sum.splits)
  qed
qed

lemma send_env:
  "groups (snd (sendMessageById w mid actor addr)) = groups w
   \<and> users (snd (sendMessageById w mid actor addr)) = users w
   \<and> clock (snd (sendMessageById w mid actor addr)) = clock w
   \<and> faults (snd (sendMessageById w mid actor addr)) = faults w"
proof (cases "map_of (messages w) mid")
  case None
  then show ?thesis by (simp add: sendMessageById_def split: option.splits)
next
  case (Some msg)
  show ?thesis
  proof (cases "resolveAudience w msg")
    case (Inl e)
    then show ?thesis using Some by (simp add: sendMessageById_def split: option.splits)
  next
    case (Inr rs)
    obtain r w1 where d: "dispatch w mid msg rs actor addr = (r, w1)"
      by (cases "dispatch w mid msg rs actor addr")
    note k = dispatch_keeps [OF d]
    show ?thesis
      using Some Inr d k
      by (simp add: sendMessageById_def ActivityLog_create_def Let_def
          split: option.splits sum.splits)
  qed
qed

lemma send_other:
  "j \<noteq> mid \<Longrightarrow> map_of (messages (snd (sendMessageById w mid actor addr))) j = map_of (messages w) j"
  by (simp add: send_messages update_conv' split: option.splits)

lemma send_local:
  assumes "groups w = groups v" and "users w = users v" and "clock w = clock v"
    and "faults w = faults v" and "map_of (messages w) mid = map_of (messages v) mid"
  shows "map_of (messages (snd (sendMessageById w mid actor addr))) mid =
         map_of (messages (snd (sendMessageById v mid actor addr))) mid"
  using assms resolve_cong [OF assms(1,2,4)] reaches_save_cong [OF assms(1,2,4)]
  by (simp add: send_messages update_conv' mark_sent_def split: option.splits)

lemma fold_send_scheduled:
  "distinct ids \<Longrightarrow>
     groups (fold send_scheduled ids w) = groups w \<and> users (fold send_scheduled ids w) = users w
   \<and> clock (fold send_scheduled ids w) = clock w \<and> faults (fold send_scheduled ids w) = faults w
   \<and> (\<forall>j. map_of (messages (fold send_scheduled ids w)) j =
          (if j \<in> set ids then map_of (messages (send_scheduled j w)) j else map_of (messages w) j))"
proof (induction ids arbitrary: w)
  case Nil
  then show ?case by simp
next
  case (Cons i ids)
  let ?w = "send_scheduled i w"
  have d: "distinct ids" and n: "i \<notin> set ids" using Cons.prems by auto
  have e: "groups ?w = groups w" "users ?w = users w" "clock ?w = clock w" "faults ?w = faults w"
    using send_env [of w i "''system''" "''scheduler''"] by (simp_all add: send_scheduled_def)
  have o: "map_of (messages ?w) j = map_of (messages w) j" if "j \<noteq> i" for j
    using that by (simp add: send_scheduled_def send_other)
  have l: "map_of (messages (send_scheduled j ?w)) j = map_of (messages (send_scheduled j w)) j"
    if "j \<noteq> i" for j
    using send_local [of ?w w j "''system''" "''scheduler''"] e o [OF that]
    by (simp add: send_scheduled_def)
  note ih = Cons.IH [OF d, of ?w]
  have m: "map_of (messages (fold send_scheduled (i # ids) w)) j =
             (if j \<in> set (i # ids) then map_of (messages (send_scheduled j w)) j
              else map_of (messages w) j)" for j
  proof (cases "j = i")
    case True
    then show ?thesis using ih n by simp
  next
    case False
    then show ?thesis using ih o [OF False] l [OF False] by simp
  qed
  show ?case using ih e m by simp
qed

lemma dispatch_logs:
  assumes "dispatch w mid msg rs actor addr = (r, w1)"
  shows "\<exists>al. activitylogs w1 = activitylogs w @ al \<and> (\<forall>e \<in> set al. user e = actor)"
proof (cases "channel msg = Email")
  case False
  then have "w1 = w" using assms by (simp add: dispatch_def)
  then show ?thesis by simp
next
  case True
  obtain r0 w0 where t: "try_email w msg rs = (r0, w0)" by (cases "try_email w msg rs")
  have l0: "activitylogs w0 = activitylogs w"
    by (subst try_email_frame [OF t]) simp
  show ?thesis
  proof (cases r0)
    case (Inr u)
    then have "w1 = w0" using assms True t by (simp add: dispatch_def)
    then show ?thesis using l0 by simp
  next
    case (Inl e)
    obtain err where e: "e = Error err" by (cases e)
    have c: "ActivityLog_create w0 (send_error_log mid err actor addr) = (r, w1)"
      using assms True t Inl e by (simp add: dispatch_def)
    show ?thesis
    proof (cases "faults w0 (ActivityLogCreate (send_error_log mid err actor addr))")
      case None
      then have "activitylogs w1 = activitylogs w @ [send_error_log mid err actor addr]"
        using c l0 by (auto simp: ActivityLog_create_def)
      moreover have "user (send_error_log mid err actor addr) = actor"
        by (simp add: send_error_log_def)
      ultimately show ?thesis by simp
    next
      case (Some x)
      then have "activitylogs w1 = activitylogs w"
        using c l0 by (auto simp: ActivityLog_create_def)
      then show ?thesis by simp
    qed
  qed
qed

lemma send_logs:
  "\<exists>al. activitylogs (snd (sendMessageById w mid actor addr)) = activitylogs w @ al
        \<and> (\<forall>e \<in> set al. user e = actor)"
proof (cases "map_of (messages w) mid")
  case None
  then have "snd (sendMessageById w mid actor addr) = w"
    by (simp add: sendMessageById_def split: option.splits)
  then show ?thesis by simp
next
  case (Some msg)
  show ?thesis
  proof (cases "resolveAudience w msg")
    case (Inl e)
    then have "snd (sendMessageById w mid actor addr) = w"
      using Some by (simp add: sendMessageById_def split: option.splits)
    then show ?thesis by simp
  next
    case (Inr rs)
    obtain r w1 where d: "dispatch w mid msg rs actor addr = (r, w1)"
      by (cases "dispatch w mid msg rs actor addr")
    obtain al where al: "activitylogs w1 = activitylogs w @ al" "\<forall>e \<in> set al. user e = actor"
      using dispatch_logs [OF d] by blast
    have u: "user (send_log msg (length rs) actor addr) = actor" by (simp add: send_log_def)
    have "activitylogs (snd (sendMessageById w mid actor addr)) = activitylogs w
        \<or> activitylogs (snd (sendMessageById w mid actor addr)) = activitylogs w1
        \<or> activitylogs (snd (sendMessageById w mid actor addr)) =
            activitylogs w1 @ [send_log msg (length rs) actor addr]"
      using Some Inr d
      by (simp add: sendMessageById_def ActivityLog_create_def Let_def
          split: option.splits sum.splits)
    then consider
        "activitylogs (snd (sendMessageById w mid actor addr)) = activitylogs w @ []"
      | "activitylogs (snd (sendMessageById w mid actor addr)) = activitylogs w @ al"
      | "activitylogs (snd (sendMessageById w mid actor addr)) =
            activitylogs w @ (al @ [send_log msg (length rs) actor addr])"
      using al(1) by auto
    then show ?thesis
    proof cases
      case 1
      then show ?thesis by (intro exI [of _ "[]"]) simp
    next
      case 2
      then show ?thesis using al(2) by (intro exI [of _ al]) simp
    next
      case 3
      then show ?thesis using al(2) u
        by (intro exI [of _ "al @ [send_log msg (length rs) actor addr]"]) simp
    qed
  qed
qed

lemma fold_send_scheduled_logs:
  "\<exists>al. activitylogs (fold send_scheduled ids w) = activitylogs w @ al
        \<and> (\<forall>e \<in> set al. user e = ''system'')"
proof (induction ids arbitrary: w)
  case Nil
  then show ?case by simp
next
  case (Cons i ids)
  obtain al1 where a1: "activitylogs (send_scheduled i w) = activitylogs w @ al1"
      "\<forall>e \<in> set al1. user e = ''system''"
    using send_logs [of w i "''system''" "''scheduler''"] by (auto simp: send_scheduled_def)
  obtain al2 where a2:
      "activitylogs (fold send_scheduled ids (send_scheduled i w)) =
         activitylogs (send_scheduled i w) @ al2"
      "\<forall>e \<in> set al2. user e = ''system''"
    using Cons.IH [of "send_scheduled i w"] by blast
  show ?case using a1 a2 by (intro exI [of _ "al1 @ al2"]) auto
qed

lemma send_returns:
  assumes "fst (sendMessageById w mid actor addr) = Inr r" and "map_of (messages w) mid = Some msg"
  shows "reaches_save w mid msg actor addr"
proof (cases "resolveAudience w msg")
  case (Inl e)
  then show ?thesis using assms by (simp add: sendMessageById_def split: option.splits)
next
  case (Inr rs)
  obtain r1 w1 where d: "dispatch w mid msg rs actor addr = (r1, w1)"
    by (cases "dispatch w mid msg rs actor addr")
  note k = dispatch_keeps [OF d]
  show ?thesis
    using assms Inr d k
    by (simp add: sendMessageById_def reaches_save_def ActivityLog_create_def Let_def
        split: option.splits sum.splits)
qed

lemma send_returns_sent:
  assumes "fst (sendMessageById w mid actor addr) = Inr r" and "map_of (messages w) mid = Some msg"
  shows "map_option status (map_of (messages (snd (sendMessageById w mid actor addr))) mid) = Some Sent"
  using send_returns [OF assms] assms(2)
  by (simp add: send_messages update_conv' mark_sent_def)

lemma due_ids_iff:
  assumes "distinct (map fst (messages w))" and "map_of (messages w) mid = Some msg"
  shows "mid \<in> set (due_ids w) \<longleftrightarrow> is_due (clock w) msg"
proof
  assume "mid \<in> set (due_ids w)"
  then obtain m where "(mid, m) \<in> set (messages w)" and d: "is_due (clock w) m"
    by (auto simp: due_ids_def)
  then have "map_of (messages w) mid = Some m" using assms(1) by simp
  then show "is_due (clock w) msg" using assms(2) d by simp
next
  assume d: "is_due (clock w) msg"
  have "(mid, msg) \<in> set (messages w)" using assms(2) by (rule map_of_SomeD)
  then show "mid \<in> set (due_ids w)" using d by (force simp: due_ids_def)
qed

lemma distinct_due_ids: "distinct (map fst (messages w)) \<Longrightarrow> distinct (due_ids w)"
  by (simp add: due_ids_def distinct_map_filter)

lemma ex_schedule_send_m1:
  "sendMessageById ex_schedule ''m1'' ''system'' ''scheduler'' = (Inl (Error ''write failed''), ex_schedule)"
  by (simp add: sendMessageById_def resolveAudience_def populate_def dispatch_def ex_schedule_def
      ex_scheduled_msg_def ex_msg_def)

lemma ex_schedule_send_m2:
  "fst (sendMessageById ex_schedule ''m2'' ''system'' ''scheduler'') =
     Inr (Some \<lparr>recipientsCount = 2, messageId = ''m2''\<rparr>)"
  by (simp add: sendMessageById_def resolveAudience_def populate_def dispatch_def ex_schedule_def
      ex_scheduled_msg_def ex_msg_def dedup_def ActivityLog_create_def Let_def)

text \<open>
  C8: on a tick whose query succeeds, a scheduled message whose instant is not after the
  clock ends the tick in the state its own \<open>sendMessageById\<close> with actor \<open>system\<close> leaves it
  in, whatever happened to the other due messages: \<open>sent\<close> when that send does not reject.
  A scheduled message whose instant is after the clock is left as it was, and every activity
  entry the tick writes has the user \<open>system\<close>.
\<close>

theorem C8_scheduler_tick:
  assumes "distinct (map fst (messages w))" and "faults w (MessageFindDue (clock w)) = None"
    and "map_of (messages w) mid = Some msg"
    and "status msg = Scheduled" and "scheduledAt msg = Some t"
  shows "(t \<le> clock w \<longrightarrow>
            map_of (messages (scheduler_tick w)) mid =
              map_of (messages (snd (sendMessageById w mid ''system'' ''scheduler''))) mid
          \<and> ((\<exists>r. fst (sendMessageById w mid ''system'' ''scheduler'') = Inr r) \<longrightarrow>
               map_option status (map_of (messages (scheduler_tick w)) mid) = Some Sent))
       \<and> (clock w < t \<longrightarrow> map_of (messages (scheduler_tick w)) mid = Some msg)
       \<and> (\<exists>al. activitylogs (scheduler_tick w) = activitylogs w @ al
                \<and> (\<forall>e \<in> set al. user e = ''system''))"
proof -
  have tick: "scheduler_tick w = fold send_scheduled (due_ids w) w"
    using assms(2) by (simp add: scheduler_tick_def)
  have due: "mid \<in> set (due_ids w) \<longleftrightarrow> t \<le> clock w"
    using due_ids_iff [OF assms(1,3)] assms(4,5) by (simp add: is_due_def)
  note f = fold_send_scheduled [OF distinct_due_ids [OF assms(1)], of w]
  have m: "map_of (messages (scheduler_tick w)) mid =
      (if t \<le> clock w then map_of (messages (snd (sendMessageById w mid ''system'' ''scheduler''))) mid
       else Some msg)"
    using f due assms(3) by (simp add: tick send_scheduled_def)
  have s: "map_option status (map_of (messages (scheduler_tick w)) mid) = Some Sent"
    if "t \<le> clock w" and "fst (sendMessageById w mid ''system'' ''scheduler'') = Inr r" for r
    using m that(1) send_returns_sent [OF that(2) assms(3)] by simp
  show ?thesis
    using m s fold_send_scheduled_logs [of "due_ids w" w] unfolding tick [symmetric] by auto
qed

theorem C8_scheduler_tick_witness:
  "distinct (map fst (messages ex_schedule))
   \<and> faults ex_schedule (MessageFindDue (clock ex_schedule)) = None
   \<and> map_of (messages ex_schedule) ''m1'' = Some (ex_scheduled_msg 900) \<and> 900 \<le> clock ex_schedule
   \<and> fst (sendMessageById ex_schedule ''m1'' ''system'' ''scheduler'') = Inl (Error ''write failed'')
   \<and> map_of (messages (scheduler_tick ex_schedule)) ''m1'' = Some (ex_scheduled_msg 900)
   \<and> map_of (messages ex_schedule) ''m2'' = Some (ex_scheduled_msg 1000) \<and> 1000 \<le> clock ex_schedule
   \<and> fst (sendMessageById ex_schedule ''m2'' ''system'' ''scheduler'') =
        Inr (Some \<lparr>recipientsCount = 2, messageId = ''m2''\<rparr>)
   \<and> map_option status (map_of (messages (scheduler_tick ex_schedule)) ''m2'') = Some Sent
   \<and> map_of (messages ex_schedule) ''m3'' = Some (ex_scheduled_msg 2000) \<and> clock ex_schedule < 2000
   \<and> map_of (messages (scheduler_tick ex_schedule)) ''m3'' = Some (ex_scheduled_msg 2000)"
proof -
  have h1: "distinct (map fst (messages ex_schedule))" by (simp add: ex_schedule_def)
  have h2: "faults ex_schedule (MessageFindDue (clock ex_schedule)) = None"
    by (simp add: ex_schedule_def)
  have c: "clock ex_schedule = 1000" by (simp add: ex_schedule_def ex_world_def)
  have m1: "map_of (messages ex_schedule) ''m1'' = Some (ex_scheduled_msg 900)"
    and m2: "map_of (messages ex_schedule) ''m2'' = Some (ex_scheduled_msg 1000)"
    and m3: "map_of (messages ex_schedule) ''m3'' = Some (ex_scheduled_msg 2000)"
    by (simp_all add: ex_schedule_def)
  have s: "status (ex_scheduled_msg t) = Scheduled" "scheduledAt (ex_scheduled_msg t) = Some t" for t
    by (simp_all add: ex_scheduled_msg_def)
  note t1 = C8_scheduler_tick [OF h1 h2 m1 s]
  note t2 = C8_scheduler_tick [OF h1 h2 m2 s]
  note t3 = C8_scheduler_tick [OF h1 h2 m3 s]
  have r1: "map_of (messages (scheduler_tick ex_schedule)) ''m1'' = Some (ex_scheduled_msg 900)"
    using t1 m1 by (simp add: c ex_schedule_send_m1)
  have d2: "1000 \<le> clock ex_schedule" by (simp add: c)
  have e2: "\<exists>r. fst (sendMessageById ex_schedule ''m2'' ''system'' ''scheduler'') = Inr r"
    by (simp add: ex_schedule_send_m2)
  have r2: "map_option status (map_of (messages (scheduler_tick ex_schedule)) ''m2'') = Some Sent"
    using t2 d2 e2 by blast
  have r3: "map_of (messages (scheduler_tick ex_schedule)) ''m3'' = Some (ex_scheduled_msg 2000)"
    using t3 by (simp add: c)
  show ?thesis
    using h1 h2 m1 m2 m3 r1 r2 r3 by (simp add: c ex_schedule_send_m1 ex_schedule_send_m2)
qed

end
